theory Spec2Isabelle
  imports Complex_Main
begin

section \<open>Numbers as the scripts see them\<close>

text \<open>
  The two scripts \<^verbatim>\<open>calculo_opciones_BS_META.py\<close> and \<^verbatim>\<open>calculo_opciones_BS_UNH.py\<close>
  compute on IEEE doubles held in pandas rows. This development is real-valued: a float is
  either a real number or not-a-number; rounding and the two infinities are outside the model.
  The quote columns and the implied volatility are tested by the code with \<^verbatim>\<open>pd.isna\<close>, so they
  carry \<open>NaN\<close>; spot, strike, time, rate and dividend yield are plain numbers.
\<close>

datatype pyfloat = NaN | Num real

fun isnan :: "pyfloat \<Rightarrow> bool" where
  "isnan NaN = True"
| "isnan (Num x) = False"

text \<open>Every ordered comparison with not-a-number is false.\<close>

fun pf_lt :: "pyfloat \<Rightarrow> pyfloat \<Rightarrow> bool" where
  "pf_lt (Num a) (Num b) = (a < b)"
| "pf_lt _ _ = False"

fun pf_le :: "pyfloat \<Rightarrow> pyfloat \<Rightarrow> bool" where
  "pf_le (Num a) (Num b) = (a \<le> b)"
| "pf_le _ _ = False"

definition pf_gt :: "pyfloat \<Rightarrow> pyfloat \<Rightarrow> bool" where
  "pf_gt a b = pf_lt b a"

definition pf_ge :: "pyfloat \<Rightarrow> pyfloat \<Rightarrow> bool" where
  "pf_ge a b = pf_le b a"

text \<open>Arithmetic propagates not-a-number.\<close>

fun pf_add :: "pyfloat \<Rightarrow> pyfloat \<Rightarrow> pyfloat" where
  "pf_add (Num a) (Num b) = Num (a + b)"
| "pf_add _ _ = NaN"

fun pf_sub :: "pyfloat \<Rightarrow> pyfloat \<Rightarrow> pyfloat" where
  "pf_sub (Num a) (Num b) = Num (a - b)"
| "pf_sub _ _ = NaN"

fun pf_mul :: "pyfloat \<Rightarrow> pyfloat \<Rightarrow> pyfloat" where
  "pf_mul (Num a) (Num b) = Num (a * b)"
| "pf_mul _ _ = NaN"

text \<open>
  Every division of the scripts that is modelled with \<open>pf_div\<close> has a divisor that is a non-zero
  literal or is guarded by a test \<^verbatim>\<open>> 0\<close>. A zero divisor gives an infinity or not-a-number
  on doubles; neither is a real, and the model answers \<open>NaN\<close> there.
\<close>

fun pf_div :: "pyfloat \<Rightarrow> pyfloat \<Rightarrow> pyfloat" where
  "pf_div (Num a) (Num b) = (if b = 0 then NaN else Num (a / b))"
| "pf_div _ _ = NaN"

text \<open>
  \<^verbatim>\<open>row.get(key)\<close> answers \<^verbatim>\<open>None\<close> for a key the row does not have: a looked-up field is a
  \<open>pyfloat option\<close>. \<^verbatim>\<open>pd.isna\<close> is true of \<^verbatim>\<open>None\<close> and of not-a-number.
\<close>

definition pd_isna :: "pyfloat option \<Rightarrow> bool" where
  "pd_isna v = (case v of None \<Rightarrow> True | Some x \<Rightarrow> isnan x)"


section \<open>Risk-free rate by maturity\<close>

text \<open>
  The dictionary \<^verbatim>\<open>treasury_tickers\<close> of \<^verbatim>\<open>get_risk_free_rate_maturity\<close>, in insertion order,
  which is the order in which the \<^verbatim>\<open>for\<close> loop visits it.
\<close>

definition treasury_tickers :: "((int \<times> int) \<times> string) list" where
  "treasury_tickers =
     [((0, 30), ''^IRX''),
      ((31, 90), ''^IRX''),
      ((91, 180), ''^FVX''),
      ((181, 365), ''^FVX''),
      ((366, 730), ''^TNX''),
      ((731, 9999), ''^TNX'')]"

text \<open>
  The loop \<^verbatim>\<open>for (min_days, max_days), tkr in treasury_tickers.items()\<close>: the first tier that
  holds \<open>maturity_days\<close> sets the ticker and breaks; when none does, the ticker keeps the value
  it had before the loop.
\<close>

fun find_ticker :: "((int \<times> int) \<times> string) list \<Rightarrow> int \<Rightarrow> string \<Rightarrow> string" where
  "find_ticker [] maturity_days ticker = ticker"
| "find_ticker (((min_days, max_days), tkr) # rest) maturity_days ticker =
     (if min_days \<le> maturity_days \<and> maturity_days \<le> max_days then tkr
      else find_ticker rest maturity_days ticker)"

definition select_ticker :: "int \<Rightarrow> string" where
  "select_ticker maturity_days = find_ticker treasury_tickers maturity_days ''^IRX''"

text \<open>The static curve after the \<^verbatim>\<open>try\<close> block.\<close>

definition default_rate :: "int \<Rightarrow> real" where
  "default_rate maturity_days =
     (if maturity_days \<le> 30 then 0.045
      else if maturity_days \<le> 90 then 0.047
      else if maturity_days \<le> 180 then 0.048
      else if maturity_days \<le> 365 then 0.049
      else 0.050)"

text \<open>
  The market-data provider is outside the repository. \<^verbatim>\<open>yf.Ticker(ticker).history(period="1d")\<close>
  is a parameter \<open>history\<close>: for a ticker it either raises (\<open>Inl\<close>) or answers the column of
  closing quotes (\<open>Inr\<close>), which may be empty.
\<close>

datatype provider_error = Provider_error

type_synonym provider = "string \<Rightarrow> provider_error + pyfloat list"

text \<open>
  \<^verbatim>\<open>get_risk_free_rate_maturity\<close>: a non-empty series returns its last close divided by 100
  from inside the \<^verbatim>\<open>try\<close>; an empty series falls out of the \<^verbatim>\<open>if\<close>, an exception is caught and
  printed, and both reach the static curve. The printed lines are not modelled.
\<close>

definition get_risk_free_rate_maturity :: "provider \<Rightarrow> int \<Rightarrow> pyfloat" where
  "get_risk_free_rate_maturity history maturity_days =
     (let ticker = select_ticker maturity_days in
      case history ticker of
        Inr hist \<Rightarrow>
          if hist \<noteq> [] then pf_div (last hist) (Num 100)
          else Num (default_rate maturity_days)
      | Inl e \<Rightarrow> Num (default_rate maturity_days))"


section \<open>Implied volatility\<close>

text \<open>\<^verbatim>\<open>validate_implied_volatility\<close> of the META script.\<close>

definition validate_implied_volatility_META :: "pyfloat \<Rightarrow> pyfloat" where
  "validate_implied_volatility_META iv =
     (if pd_isna (Some iv) \<or> pf_le iv (Num 0) then Num 0.35
      else if pf_gt iv (Num 5) then Num 0.60
      else iv)"

text \<open>\<^verbatim>\<open>validate_implied_volatility\<close> of the UNH script.\<close>

definition validate_implied_volatility_UNH :: "pyfloat \<Rightarrow> pyfloat" where
  "validate_implied_volatility_UNH iv =
     (if pd_isna (Some iv) \<or> pf_le iv (Num 0) then Num 0.30
      else if pf_gt iv (Num 5) then Num 0.50
      else iv)"


section \<open>Black-Scholes-Merton price\<close>

text \<open>
  \<^verbatim>\<open>scipy.stats.norm.cdf\<close> is a library function outside the repository; the pricing function
  takes it as its first parameter \<open>cdf\<close>. \<^verbatim>\<open>np.log\<close>, \<^verbatim>\<open>np.exp\<close> and \<^verbatim>\<open>np.sqrt\<close> are the real
  \<open>ln\<close>, \<open>exp\<close> and \<open>sqrt\<close>.

  Where \<open>K = 0\<close> or \<open>S / K \<le> 0\<close> the logarithm of the formula is not a real number (doubles
  continue with an infinity or not-a-number); the model stops there with \<open>Not_finite\<close>. The same
  answer stands for a volatility that is not a number, which validation excludes.
\<close>

datatype bs_error = Not_finite

text \<open>The two price lines of the formula branch, for a volatility that is a number.\<close>

definition bs_formula ::
  "(real \<Rightarrow> real) \<Rightarrow> real \<Rightarrow> real \<Rightarrow> real \<Rightarrow> real \<Rightarrow> real \<Rightarrow> real \<Rightarrow> string \<Rightarrow> real" where
  "bs_formula cdf S K T r sigma q option_type =
     (let d1 = (ln (S / K) + (r - q + 0.5 * sigma\<^sup>2) * T) / (sigma * sqrt T);
          d2 = d1 - sigma * sqrt T
      in if option_type = ''call''
         then S * exp (- q * T) * cdf d1 - K * exp (- r * T) * cdf d2
         else K * exp (- r * T) * cdf (- d2) - S * exp (- q * T) * cdf (- d1))"

definition black_scholes_with_dividends_META ::
  "(real \<Rightarrow> real) \<Rightarrow> real \<Rightarrow> real \<Rightarrow> real \<Rightarrow> real \<Rightarrow> pyfloat \<Rightarrow> real \<Rightarrow> string
     \<Rightarrow> bs_error + real" where
  "black_scholes_with_dividends_META cdf S K T r sigma q option_type =
     (if T \<le> 0 then
        (if option_type = ''call'' then Inr (max (S - K) 0) else Inr (max (K - S) 0))
      else
        (case validate_implied_volatility_META sigma of
           NaN \<Rightarrow> Inl Not_finite
         | Num sigma' \<Rightarrow>
             if K = 0 \<or> S / K \<le> 0 then Inl Not_finite
             else Inr (bs_formula cdf S K T r sigma' q option_type)))"

definition black_scholes_with_dividends_UNH ::
  "(real \<Rightarrow> real) \<Rightarrow> real \<Rightarrow> real \<Rightarrow> real \<Rightarrow> real \<Rightarrow> pyfloat \<Rightarrow> real \<Rightarrow> string
     \<Rightarrow> bs_error + real" where
  "black_scholes_with_dividends_UNH cdf S K T r sigma q option_type =
     (if T \<le> 0 then
        (if option_type = ''call'' then Inr (max (S - K) 0) else Inr (max (K - S) 0))
      else
        (case validate_implied_volatility_UNH sigma of
           NaN \<Rightarrow> Inl Not_finite
         | Num sigma' \<Rightarrow>
             if K = 0 \<or> S / K \<le> 0 then Inl Not_finite
             else Inr (bs_formula cdf S K T r sigma' q option_type)))"


section \<open>Effective market price\<close>

text \<open>
  A row of the option chain, as far as the scripts read it. A field is \<open>None\<close> when the row has
  no such key. \<open>days_to_expiration\<close> is \<^verbatim>\<open>(option['expirationDate'] - today).days\<close>.
\<close>

record option_row =
  contractName :: "string option"
  strike :: "real option"
  lastPrice :: "pyfloat option"
  bid :: "pyfloat option"
  ask :: "pyfloat option"
  impliedVolatility :: "pyfloat option"
  underlying_price :: "real option"
  option_type :: "string option"
  effective_price :: "pyfloat option"
  days_to_expiration :: int

text \<open>
  Each priority of \<^verbatim>\<open>calculate_effective_price\<close> is a test followed by a \<^verbatim>\<open>return\<close>: \<open>Some p\<close>
  is the returned price, \<open>None\<close> falls through to the next priority. The \<^verbatim>\<open>and\<close> chains
  short-circuit, so a field that \<^verbatim>\<open>pd.isna\<close> rejects is never compared.
\<close>

definition priority1 :: "option_row \<Rightarrow> pyfloat option" where
  "priority1 option_row =
     (case lastPrice option_row of
        None \<Rightarrow> None
      | Some lp \<Rightarrow>
          if \<not> pd_isna (Some lp) \<and> pf_gt lp (Num 0) \<and>
             pf_le lp (case ask option_row of None \<Rightarrow> pf_mul lp (Num 2) | Some a \<Rightarrow> a)
          then Some lp else None)"

definition priority2 :: "option_row \<Rightarrow> pyfloat option" where
  "priority2 option_row =
     (case (bid option_row, ask option_row) of
        (Some b, Some a) \<Rightarrow>
          if \<not> pd_isna (Some b) \<and> \<not> pd_isna (Some a) \<and>
             pf_gt b (Num 0) \<and> pf_gt a (Num 0) \<and> pf_ge a b
          then (let midpoint = pf_div (pf_add b a) (Num 2)
                in if pf_gt midpoint (Num 0) \<and> pf_le midpoint a then Some midpoint else None)
          else None
      | _ \<Rightarrow> None)"

definition priority3 :: "option_row \<Rightarrow> pyfloat option" where
  "priority3 option_row =
     (case bid option_row of
        None \<Rightarrow> None
      | Some b \<Rightarrow> if \<not> pd_isna (Some b) \<and> pf_gt b (Num 0) then Some b else None)"

definition priority4 :: "option_row \<Rightarrow> pyfloat option" where
  "priority4 option_row =
     (case ask option_row of
        None \<Rightarrow> None
      | Some a \<Rightarrow> if \<not> pd_isna (Some a) \<and> pf_gt a (Num 0) then Some a else None)"

text \<open>The fallback: the intrinsic value, at least one cent, with the defaults of the three \<^verbatim>\<open>get\<close>s.\<close>

definition intrinsic_floor :: "option_row \<Rightarrow> pyfloat" where
  "intrinsic_floor option_row =
     (let S = (case underlying_price option_row of None \<Rightarrow> 500 | Some s \<Rightarrow> s);
          K = (case strike option_row of None \<Rightarrow> S | Some k \<Rightarrow> k);
          opt_type = (case option_type option_row of None \<Rightarrow> ''call'' | Some t \<Rightarrow> t);
          intrinsic = (if opt_type = ''call'' then max (S - K) 0 else max (K - S) 0)
      in Num (max intrinsic 0.01))"

definition calculate_effective_price :: "option_row \<Rightarrow> pyfloat" where
  "calculate_effective_price option_row =
     (case priority1 option_row of
        Some p \<Rightarrow> p
      | None \<Rightarrow>
     (case priority2 option_row of
        Some p \<Rightarrow> p
      | None \<Rightarrow>
     (case priority3 option_row of
        Some p \<Rightarrow> p
      | None \<Rightarrow>
     (case priority4 option_row of
        Some p \<Rightarrow> p
      | None \<Rightarrow> intrinsic_floor option_row))))"


section \<open>Evaluating a chain\<close>

text \<open>
  The two lines that close the body of the evaluation loops of
  \<^verbatim>\<open>calculate_black_scholes_for_options\<close>, the same in both scripts and in the loop over calls
  and the loop over puts: the difference and the percent difference of the model price and
  the market price.
\<close>

definition price_differences :: "pyfloat \<Rightarrow> pyfloat \<Rightarrow> pyfloat \<times> pyfloat" where
  "price_differences bs_price price =
     (let diff = pf_sub bs_price price;
          percent_diff =
            (if pf_gt price (Num 0) then pf_mul (pf_div diff price) (Num 100) else Num 0)
      in (diff, percent_diff))"

text \<open>What a loop body prints for a row.\<close>

record report_row =
  rep_contract :: string
  rep_strike :: real
  rep_price :: pyfloat
  rep_iv :: pyfloat
  rep_bs_price :: pyfloat
  rep_diff :: pyfloat
  rep_percent_diff :: pyfloat
  rep_moneyness :: string

text \<open>
  A price that is not a real number is printed as such by the scripts; in a report it is \<open>NaN\<close>.
\<close>

definition as_float :: "bs_error + real \<Rightarrow> pyfloat" where
  "as_float res = (case res of Inl e \<Rightarrow> NaN | Inr p \<Rightarrow> Num p)"

text \<open>
  The loops over calls and over puts differ in the option type they pass and in the moneyness
  label.
\<close>

definition moneyness_of :: "string \<Rightarrow> real \<Rightarrow> real \<Rightarrow> string" where
  "moneyness_of kind S K =
     (if kind = ''call''
      then (if S > K then ''ITM'' else if S < K then ''OTM'' else ''ATM'')
      else (if S < K then ''ITM'' else if S > K then ''OTM'' else ''ATM''))"

text \<open>
  The body of the loops of the META script: \<open>None\<close> is a row that is skipped, by \<^verbatim>\<open>continue\<close>
  for a time to expiry that is not positive, or by the \<^verbatim>\<open>except\<close> clause for a missing key.
  \<open>S\<close> and \<open>q\<close> come from the option data, \<open>r\<close> is the rate of the expiration group.
\<close>

definition evaluate_row_META ::
  "(real \<Rightarrow> real) \<Rightarrow> real \<Rightarrow> real \<Rightarrow> real \<Rightarrow> string \<Rightarrow> option_row \<Rightarrow> report_row option" where
  "evaluate_row_META cdf S q r kind option =
     (let T_days = days_to_expiration option;
          T = real_of_int T_days / 365
      in if T \<le> 0 then None
         else
           (case (strike option, effective_price option, impliedVolatility option,
                  contractName option) of
              (Some K, Some eff, Some vol, Some contract_name) \<Rightarrow>
                (let bs = as_float (black_scholes_with_dividends_META cdf S K T r vol q kind);
                     (d, pd) = price_differences bs eff
                 in Some \<lparr>rep_contract = contract_name, rep_strike = K, rep_price = eff,
                          rep_iv = vol, rep_bs_price = bs, rep_diff = d, rep_percent_diff = pd,
                          rep_moneyness = moneyness_of kind S K\<rparr>)
            | _ \<Rightarrow> None))"

text \<open>
  The META script keeps the rows whose effective price is positive before it groups them.
\<close>

definition valid_rows :: "option_row list \<Rightarrow> option_row list" where
  "valid_rows rows =
     filter (\<lambda>row. case effective_price row of None \<Rightarrow> False | Some e \<Rightarrow> pf_gt e (Num 0)) rows"

definition evaluate_group_META ::
  "(real \<Rightarrow> real) \<Rightarrow> real \<Rightarrow> real \<Rightarrow> real \<Rightarrow> string \<Rightarrow> option_row list \<Rightarrow> report_row list" where
  "evaluate_group_META cdf S q r kind rows =
     List.map_filter (evaluate_row_META cdf S q r kind) (valid_rows rows)"

text \<open>
  The body of the loops of the UNH script, which has no effective-price column: the market
  price is the last price when that is positive and the sum of bid and ask halved otherwise.
\<close>

definition last_price_UNH :: "option_row \<Rightarrow> pyfloat option" where
  "last_price_UNH option =
     (case lastPrice option of
        None \<Rightarrow> None
      | Some lp \<Rightarrow>
          if pf_gt lp (Num 0) then Some lp
          else (case (bid option, ask option) of
                  (Some b, Some a) \<Rightarrow> Some (pf_div (pf_add b a) (Num 2))
                | _ \<Rightarrow> None))"

definition evaluate_row_UNH ::
  "(real \<Rightarrow> real) \<Rightarrow> real \<Rightarrow> real \<Rightarrow> real \<Rightarrow> string \<Rightarrow> option_row \<Rightarrow> report_row option" where
  "evaluate_row_UNH cdf S q r kind option =
     (let T_days = days_to_expiration option;
          T = real_of_int T_days / 365
      in if T \<le> 0 then None
         else
           (case (strike option, last_price_UNH option, impliedVolatility option,
                  contractName option) of
              (Some K, Some last_price, Some vol, Some contract_name) \<Rightarrow>
                (let bs = as_float (black_scholes_with_dividends_UNH cdf S K T r vol q kind);
                     (d, pd) = price_differences bs last_price
                 in Some \<lparr>rep_contract = contract_name, rep_strike = K, rep_price = last_price,
                          rep_iv = vol, rep_bs_price = bs, rep_diff = d, rep_percent_diff = pd,
                          rep_moneyness = moneyness_of kind S K\<rparr>)
            | _ \<Rightarrow> None))"

definition evaluate_group_UNH ::
  "(real \<Rightarrow> real) \<Rightarrow> real \<Rightarrow> real \<Rightarrow> real \<Rightarrow> string \<Rightarrow> option_row list \<Rightarrow> report_row list" where
  "evaluate_group_UNH cdf S q r kind rows =
     List.map_filter (evaluate_row_UNH cdf S q r kind) rows"


section \<open>Vocabulary of the properties\<close>

text \<open>A float that is a number in the half-open interval from \<open>lo\<close> (excluded) to \<open>hi\<close>.\<close>

definition in_range :: "real \<Rightarrow> real \<Rightarrow> pyfloat \<Rightarrow> bool" where
  "in_range lo hi v = (case v of NaN \<Rightarrow> False | Num x \<Rightarrow> lo < x \<and> x \<le> hi)"

text \<open>The tiers of the dictionary that hold a day count.\<close>

definition matching_tiers :: "int \<Rightarrow> ((int \<times> int) \<times> string) list" where
  "matching_tiers maturity_days =
     filter (\<lambda>((min_days, max_days), tkr). min_days \<le> maturity_days \<and> maturity_days \<le> max_days)
       treasury_tickers"


text \<open>
  The percent difference as the loops compute it, spelled out on the two floats: zero for a
  market price that is not greater than zero or not a number, and otherwise the relative
  deviation of the model price times 100.
\<close>

definition expected_percent :: "pyfloat \<Rightarrow> pyfloat \<Rightarrow> pyfloat" where
  "expected_percent theoretical effective =
     (case effective of
        NaN \<Rightarrow> Num 0
      | Num e \<Rightarrow>
          if 0 < e
          then (case theoretical of NaN \<Rightarrow> NaN | Num t \<Rightarrow> Num ((t - e) / e * 100))
          else Num 0)"

text \<open>Two prices, both numbers, in order.\<close>

definition price_le :: "bs_error + real \<Rightarrow> bs_error + real \<Rightarrow> bool" where
  "price_le a b = (case (a, b) of (Inr x, Inr y) \<Rightarrow> x \<le> y | _ \<Rightarrow> False)"

text \<open>
  What the properties of the price formula need of the library function \<^verbatim>\<open>norm.cdf\<close>. The
  standard normal distribution function \<open>\<Phi>\<close> has \<open>\<Phi> (- x) = 1 - \<Phi> x\<close>, takes no negative
  value, and its derivative at \<open>x\<close> is \<open>exp (- x\<^sup>2 / 2) / sqrt (2 * pi)\<close>.
\<close>

definition symmetric_cdf :: "(real \<Rightarrow> real) \<Rightarrow> bool" where
  "symmetric_cdf cdf = (\<forall>x. cdf (- x) = 1 - cdf x)"

definition gaussian_cdf :: "(real \<Rightarrow> real) \<Rightarrow> bool" where
  "gaussian_cdf cdf =
     ((\<exists>c. \<forall>x. (cdf has_real_derivative c * exp (- x\<^sup>2 / 2)) (at x)) \<and> (\<forall>x. 0 \<le> cdf x))"


section \<open>A distribution function with a Gaussian density\<close>

text \<open>
  The power series of \<open>exp (- x\<^sup>2 / 2)\<close>, its term-wise primitive \<open>gauss_int\<close>, which vanishes
  at 0, and that primitive scaled into the unit interval. \<^verbatim>\<open>norm.cdf\<close> is the same function
  with the divisor \<open>sqrt (2 * pi)\<close> where \<open>gauss_cdf\<close> has \<open>2 * exp (1 / 2)\<close>. Closed examples
  pass \<open>gauss_cdf\<close> for the parameter \<open>cdf\<close>.
\<close>

definition gauss_coeff :: "nat \<Rightarrow> real" where
  "gauss_coeff n = (if even n then (- 1 / 2) ^ (n div 2) / fact (n div 2) else 0)"

definition gauss_int_coeff :: "nat \<Rightarrow> real" where
  "gauss_int_coeff n = (if n = 0 then 0 else gauss_coeff (n - 1) / real n)"

definition gauss_int :: "real \<Rightarrow> real" where
  "gauss_int x = (\<Sum>n. gauss_int_coeff n * x ^ n)"

definition gauss_cdf :: "real \<Rightarrow> real" where
  "gauss_cdf x = 1 / 2 + gauss_int x / (2 * exp (1 / 2))"


section \<open>Example rows\<close>


text \<open>A row without last price, with bid 2.00 and ask 2.20.\<close>

definition scenario3 :: option_row where
  "scenario3 =
     \<lparr>contractName = None, strike = Some 100, lastPrice = None, bid = Some (Num 2.00),
      ask = Some (Num 2.20), impliedVolatility = None, underlying_price = Some 100,
      option_type = Some ''call'', effective_price = None, days_to_expiration = 30\<rparr>"

text \<open>A call of the UNH chain that has not traded: last price, bid and ask are all 0.\<close>

definition untraded_row :: option_row where
  "untraded_row =
     \<lparr>contractName = Some ''UNH261218C00300000'', strike = Some 300, lastPrice = Some (Num 0),
      bid = Some (Num 0), ask = Some (Num 0), impliedVolatility = Some (Num 0.30),
      underlying_price = None, option_type = None, effective_price = None,
      days_to_expiration = 44\<rparr>"

text \<open>A call of the META chain with effective price 12.50.\<close>

definition traded_row :: option_row where
  "traded_row =
     \<lparr>contractName = Some ''META261218C00500000'', strike = Some 500,
      lastPrice = Some (Num 12.50), bid = Some (Num 12.40), ask = Some (Num 12.60),
      impliedVolatility = Some (Num 0.30), underlying_price = Some 510,
      option_type = Some ''call'', effective_price = Some (Num 12.50),
      days_to_expiration = 44\<rparr>"


section \<open>The Gaussian primitive\<close>

lemma inverse_fact_scale: "(a::real) /\<^sub>R fact k = a / fact k"
  by (simp add: divide_inverse)

lemma gauss_coeff_sums: "(\<lambda>n. gauss_coeff n * x ^ n) sums exp (- x\<^sup>2 / 2)"
proof -
  have e: "(\<lambda>m. (- x\<^sup>2 / 2) ^ m /\<^sub>R fact m) sums exp (- x\<^sup>2 / 2)"
    by (rule exp_converges)
  have z: "(\<lambda>m. 0::real) sums 0" by simp
  have "(\<lambda>n. if even n then (- x\<^sup>2 / 2) ^ (n div 2) /\<^sub>R fact (n div 2) else 0) sums (0 + exp (- x\<^sup>2 / 2))"
    using sums_if [OF z e] by simp
  moreover have "(\<lambda>n. if even n then (- x\<^sup>2 / 2) ^ (n div 2) /\<^sub>R fact (n div 2) else 0)
      = (\<lambda>n. gauss_coeff n * x ^ n)"
  proof
    fix n show "(if even n then (- x\<^sup>2 / 2) ^ (n div 2) /\<^sub>R fact (n div 2) else 0) = gauss_coeff n * x ^ n"
    proof (cases "even n")
      case True
      then obtain k where k: "n = 2 * k" by (auto elim: evenE)
      have "(- x\<^sup>2 / 2) ^ k = ((- 1 / 2) * x\<^sup>2) ^ k" by simp
      also have "\<dots> = (- 1 / 2) ^ k * (x\<^sup>2) ^ k" by (rule power_mult_distrib)
      also have "(x\<^sup>2) ^ k = x ^ (2 * k)" by (rule power_mult [symmetric])
      finally have p: "(- x\<^sup>2 / 2) ^ k = (- 1 / 2) ^ k * x ^ (2 * k)" .
      have c: "gauss_coeff (2 * k) = (- 1 / 2) ^ k / fact k"
        by (simp add: gauss_coeff_def)
      have "(- x\<^sup>2 / 2) ^ k /\<^sub>R fact k = (- x\<^sup>2 / 2) ^ k / fact k"
        by (rule inverse_fact_scale)
      also have "\<dots> = gauss_coeff (2 * k) * x ^ (2 * k)"
        by (simp only: p c times_divide_eq_left)
      finally have "(- x\<^sup>2 / 2) ^ k /\<^sub>R fact k = gauss_coeff (2 * k) * x ^ (2 * k)" .
      then show ?thesis unfolding k by simp
    next
      case False
      then show ?thesis by (simp add: gauss_coeff_def)
    qed
  qed
  ultimately show ?thesis by simp
qed

lemma gauss_coeff_abs_summable: "summable (\<lambda>n. \<bar>gauss_coeff n * x ^ n\<bar>)"
proof -
  have e: "(\<lambda>m. (x\<^sup>2 / 2) ^ m /\<^sub>R fact m) sums exp (x\<^sup>2 / 2)"
    by (rule exp_converges)
  have z: "(\<lambda>m. 0::real) sums 0" by simp
  have "(\<lambda>n. if even n then (x\<^sup>2 / 2) ^ (n div 2) /\<^sub>R fact (n div 2) else 0) sums (0 + exp (x\<^sup>2 / 2))"
    using sums_if [OF z e] by simp
  moreover have "(\<lambda>n. if even n then (x\<^sup>2 / 2) ^ (n div 2) /\<^sub>R fact (n div 2) else 0)
      = (\<lambda>n. \<bar>gauss_coeff n * x ^ n\<bar>)"
  proof
    fix n show "(if even n then (x\<^sup>2 / 2) ^ (n div 2) /\<^sub>R fact (n div 2) else 0) = \<bar>gauss_coeff n * x ^ n\<bar>"
    proof (cases "even n")
      case True
      then obtain k where k: "n = 2 * k" by (auto elim: evenE)
      have "(x\<^sup>2 / 2) ^ k = ((1 / 2) * x\<^sup>2) ^ k" by simp
      also have "\<dots> = (1 / 2) ^ k * (x\<^sup>2) ^ k" by (rule power_mult_distrib)
      also have "(x\<^sup>2) ^ k = x ^ (2 * k)" by (rule power_mult [symmetric])
      finally have p: "(x\<^sup>2 / 2) ^ k = (1 / 2) ^ k * x ^ (2 * k)" .
      have "\<bar>(- 1 / 2 :: real) ^ k\<bar> = (1 / 2) ^ k"
        by (simp only: power_abs) simp
      then have c: "\<bar>gauss_coeff (2 * k)\<bar> = (1 / 2) ^ k / fact k"
        by (simp add: gauss_coeff_def)
      have ev: "\<bar>x ^ (2 * k)\<bar> = x ^ (2 * k)"
        by (simp add: power_mult)
      have "(x\<^sup>2 / 2) ^ k /\<^sub>R fact k = (x\<^sup>2 / 2) ^ k / fact k"
        by (rule inverse_fact_scale)
      also have "\<dots> = \<bar>gauss_coeff (2 * k)\<bar> * \<bar>x ^ (2 * k)\<bar>"
        by (simp only: p c ev times_divide_eq_left)
      also have "\<dots> = \<bar>gauss_coeff (2 * k) * x ^ (2 * k)\<bar>"
        by (rule abs_mult [symmetric])
      finally have "(x\<^sup>2 / 2) ^ k /\<^sub>R fact k = \<bar>gauss_coeff (2 * k) * x ^ (2 * k)\<bar>" .
      then show ?thesis unfolding k by simp
    next
      case False
      then show ?thesis by (simp add: gauss_coeff_def)
    qed
  qed
  ultimately show ?thesis by (simp add: sums_iff)
qed

lemma gauss_int_coeff_summable: "summable (\<lambda>n. gauss_int_coeff n * x ^ n)"
proof (rule summable_comparison_test')
  show "summable (\<lambda>n. \<bar>x\<bar> * (if n = 0 then 0 else \<bar>gauss_coeff (n - 1) * x ^ (n - 1)\<bar>))"
  proof (rule summable_mult)
    have "summable (\<lambda>n. \<bar>gauss_coeff (Suc n - 1) * x ^ (Suc n - 1)\<bar>)"
      using gauss_coeff_abs_summable [of x] by simp
    then have "summable (\<lambda>n. if Suc n = 0 then 0 else \<bar>gauss_coeff (Suc n - 1) * x ^ (Suc n - 1)\<bar>)"
      by simp
    then show "summable (\<lambda>n. if n = 0 then 0 else \<bar>gauss_coeff (n - 1) * x ^ (n - 1)\<bar>)"
      by (subst (asm) summable_Suc_iff)
  qed
next
  fix n :: nat
  assume "n \<ge> 0"
  show "norm (gauss_int_coeff n * x ^ n) \<le> \<bar>x\<bar> * (if n = 0 then 0 else \<bar>gauss_coeff (n - 1) * x ^ (n - 1)\<bar>)"
  proof (cases n)
    case 0
    then show ?thesis by (simp add: gauss_int_coeff_def)
  next
    case (Suc m)
    have "\<bar>gauss_coeff m\<bar> / real (Suc m) \<le> \<bar>gauss_coeff m\<bar>"
      by (simp add: divide_le_eq mult_le_cancel_left1)
    then have "\<bar>gauss_coeff m\<bar> / real (Suc m) * (\<bar>x\<bar> * \<bar>x\<bar> ^ m) \<le> \<bar>gauss_coeff m\<bar> * (\<bar>x\<bar> * \<bar>x\<bar> ^ m)"
      by (intro mult_right_mono) auto
    then show ?thesis using Suc
      by (simp add: gauss_int_coeff_def abs_mult power_abs mult_ac)
  qed
qed

lemma diffs_gauss_int_coeff: "diffs gauss_int_coeff = gauss_coeff"
  by (rule ext) (simp add: diffs_def gauss_int_coeff_def)

lemma DERIV_gauss_int: "(gauss_int has_real_derivative exp (- x\<^sup>2 / 2)) (at x)"
proof -
  have "((\<lambda>x. \<Sum>n. gauss_int_coeff n * x ^ n) has_real_derivative (\<Sum>n. diffs gauss_int_coeff n * x ^ n)) (at x)"
    by (rule termdiffs_strong_converges_everywhere) (rule gauss_int_coeff_summable)
  moreover have "(\<Sum>n. diffs gauss_int_coeff n * x ^ n) = exp (- x\<^sup>2 / 2)"
    using gauss_coeff_sums [of x] by (simp add: diffs_gauss_int_coeff sums_iff)
  moreover have "(\<lambda>x. \<Sum>n. gauss_int_coeff n * x ^ n) = gauss_int"
    by (rule ext) (simp add: gauss_int_def)
  ultimately show ?thesis by simp
qed

lemma gauss_int_0: "gauss_int 0 = 0"
proof -
  have "(\<lambda>n. gauss_int_coeff n * 0 ^ n) = (\<lambda>n. 0)"
    by (rule ext) (simp add: gauss_int_coeff_def power_0_left)
  then show ?thesis by (simp add: gauss_int_def)
qed

lemma gauss_int_odd: "gauss_int (- x) = - gauss_int x"
proof -
  have d: "\<forall>y. ((\<lambda>y. gauss_int y + gauss_int (- y)) has_real_derivative 0) (at y)"
  proof
    fix y :: real
    have "((\<lambda>y. gauss_int (- y)) has_real_derivative exp (- (- y)\<^sup>2 / 2) * (- 1)) (at y)"
      by (rule DERIV_chain2 [OF DERIV_gauss_int]) (auto intro!: derivative_eq_intros)
    then have "((\<lambda>y. gauss_int y + gauss_int (- y)) has_real_derivative
        exp (- y\<^sup>2 / 2) + exp (- (- y)\<^sup>2 / 2) * (- 1)) (at y)"
      by (rule DERIV_add [OF DERIV_gauss_int])
    then show "((\<lambda>y. gauss_int y + gauss_int (- y)) has_real_derivative 0) (at y)" by simp
  qed
  have "gauss_int x + gauss_int (- x) = gauss_int 0 + gauss_int (- 0)"
    by (rule DERIV_isconst_all [OF d])
  then show ?thesis by (simp add: gauss_int_0)
qed

lemma gauss_int_nonneg: assumes "0 \<le> x" shows "0 \<le> gauss_int x"
proof -
  have "gauss_int 0 \<le> gauss_int x"
  proof (rule DERIV_nonneg_imp_nondecreasing [OF assms])
    fix y :: real
    show "\<exists>d. (gauss_int has_real_derivative d) (at y) \<and> 0 \<le> d"
      using DERIV_gauss_int [of y] by (intro exI [of _ "exp (- y\<^sup>2 / 2)"]) simp
  qed
  then show ?thesis by (simp add: gauss_int_0)
qed

lemma gauss_int_upper: assumes "0 \<le> x" shows "gauss_int x \<le> exp (1 / 2)"
proof -
  let ?k = "\<lambda>y. gauss_int y + exp (1 / 2 - y)"
  have "?k x \<le> ?k 0"
  proof (rule DERIV_nonpos_imp_nonincreasing [OF assms])
    fix y :: real
    have "(?k has_real_derivative exp (- y\<^sup>2 / 2) + exp (1 / 2 - y) * (0 - 1)) (at y)"
      by (intro DERIV_add DERIV_gauss_int DERIV_chain2 [OF DERIV_exp] derivative_intros)
    moreover have "- y\<^sup>2 / 2 \<le> 1 / 2 - y"
    proof -
      have "0 \<le> (y - 1)\<^sup>2" by simp
      then show ?thesis by (simp add: power2_eq_square algebra_simps)
    qed
    then have "exp (- y\<^sup>2 / 2) + exp (1 / 2 - y) * (0 - 1) \<le> 0" by simp
    ultimately show "\<exists>d. (?k has_real_derivative d) (at y) \<and> d \<le> 0" by blast
  qed
  then have "gauss_int x + exp (1 / 2 - x) \<le> exp (1 / 2)" by (simp add: gauss_int_0)
  moreover have "0 \<le> exp (1 / 2 - x)" by simp
  ultimately show ?thesis by linarith
qed

lemma gauss_int_bounds: "\<bar>gauss_int x\<bar> \<le> exp (1 / 2)"
proof (cases "0 \<le> x")
  case True
  then show ?thesis using gauss_int_nonneg [of x] gauss_int_upper [of x] by simp
next
  case False
  then have "0 \<le> - x" by simp
  then show ?thesis
    using gauss_int_nonneg [of "- x"] gauss_int_upper [of "- x"] by (simp add: gauss_int_odd)
qed

lemma gauss_cdf_symmetric: "symmetric_cdf gauss_cdf"
  by (simp add: symmetric_cdf_def gauss_cdf_def gauss_int_odd)

lemma gauss_cdf_range: "0 \<le> gauss_cdf x" "gauss_cdf x \<le> 1"
proof -
  have b: "\<bar>gauss_int x\<bar> \<le> exp (1 / 2)" by (rule gauss_int_bounds)
  have p: "(0::real) < 2 * exp (1 / 2)" by simp
  have "\<bar>gauss_int x / (2 * exp (1 / 2))\<bar> \<le> 1 / 2"
  proof -
    have "\<bar>gauss_int x / (2 * exp (1 / 2))\<bar> = \<bar>gauss_int x\<bar> / (2 * exp (1 / 2))"
      by (simp add: abs_mult)
    also have "\<dots> \<le> exp (1 / 2) / (2 * exp (1 / 2))"
      using b p by (intro divide_right_mono) simp_all
    also have "\<dots> = 1 / 2" by simp
    finally show ?thesis .
  qed
  then show "0 \<le> gauss_cdf x" "gauss_cdf x \<le> 1"
    unfolding gauss_cdf_def by linarith+
qed

lemma gauss_cdf_deriv:
  "(gauss_cdf has_real_derivative (1 / (2 * exp (1 / 2))) * exp (- x\<^sup>2 / 2)) (at x)"
proof -
  have "((\<lambda>x. 1 / 2 + gauss_int x / (2 * exp (1 / 2))) has_real_derivative
          0 + exp (- x\<^sup>2 / 2) / (2 * exp (1 / 2))) (at x)"
    by (intro DERIV_add DERIV_const DERIV_cdivide DERIV_gauss_int)
  moreover have "(\<lambda>x. 1 / 2 + gauss_int x / (2 * exp (1 / 2))) = gauss_cdf"
    by (rule ext) (simp add: gauss_cdf_def)
  ultimately show ?thesis by simp
qed

lemma gauss_cdf_gaussian: "gaussian_cdf gauss_cdf"
  unfolding gaussian_cdf_def
  using gauss_cdf_deriv gauss_cdf_range(1) by blast


section \<open>Rate selection\<close>

lemma select_ticker_cases:
  "select_ticker d =
     (if 0 \<le> d \<and> d \<le> 90 then ''^IRX''
      else if 91 \<le> d \<and> d \<le> 365 then ''^FVX''
      else if 366 \<le> d \<and> d \<le> 9999 then ''^TNX''
      else ''^IRX'')"
  by (simp add: select_ticker_def treasury_tickers_def)

text \<open>
  Up to 9999 days exactly one tier of the dictionary holds the day count, and the ticker is
  the short tenor up to 90 days, the medium tenor up to 365 and the long tenor beyond.
\<close>

lemma tiers_in_range:
  assumes "0 \<le> d" "d \<le> 9999"
  shows "length (matching_tiers d) = 1"
    and "select_ticker d =
           (if d \<le> 90 then ''^IRX'' else if d \<le> 365 then ''^FVX'' else ''^TNX'')"
  using assms by (auto simp: matching_tiers_def treasury_tickers_def select_ticker_cases)

text \<open>
  C5. The claim has every day count from 731 on, 10000 among them, in a sixth tier that is
  unbounded and bound to the long tenor. The dictionary's sixth tier ends at 9999: at 10000
  days no tier matches, the ticker keeps its initial value, the short tenor \<^verbatim>\<open>^IRX\<close>, and the
  rate returned is the 13-week quote although a 10-year quote is on offer.
\<close>

theorem long_maturity_selects_short_tenor:
  "matching_tiers 10000 = []
   \<and> select_ticker 10000 = ''^IRX''
   \<and> get_risk_free_rate_maturity
        (\<lambda>t. if t = ''^TNX'' then Inr [Num 4.3] else if t = ''^IRX'' then Inr [Num 5.2]
              else Inl Provider_error) 10000 = Num 0.052"
  by (simp add: matching_tiers_def treasury_tickers_def select_ticker_cases
        get_risk_free_rate_maturity_def)

text \<open>
  C6. Whenever the provider raises or answers an empty series for the selected ticker,
  \<open>get_risk_free_rate_maturity\<close> returns a number, the rate of the static curve:
  0.045 up to 30 days, 0.047 up to 90, 0.048 up to 180, 0.049 up to 365 and 0.050 beyond.
\<close>

theorem rate_fallback_on_failure:
  assumes "history (select_ticker d) = Inl e \<or> history (select_ticker d) = Inr []"
  shows "get_risk_free_rate_maturity history d =
           Num (if d \<le> 30 then 0.045 else if d \<le> 90 then 0.047
                else if d \<le> 180 then 0.048 else if d \<le> 365 then 0.049 else 0.050)"
  using assms by (auto simp: get_risk_free_rate_maturity_def default_rate_def)

theorem rate_fallback_on_failure_witness:
  "get_risk_free_rate_maturity (\<lambda>t. Inl Provider_error) 45 = Num 0.047
   \<and> get_risk_free_rate_maturity (\<lambda>t. Inr []) 400 = Num 0.050"
  using rate_fallback_on_failure [of "\<lambda>t. Inl Provider_error" 45 Provider_error]
        rate_fallback_on_failure [of "\<lambda>t. Inr []" 400 Provider_error]
  by simp


section \<open>Volatility validation\<close>

lemma validate_META_cases:
  "validate_implied_volatility_META v =
     (case v of NaN \<Rightarrow> Num 0.35
      | Num x \<Rightarrow> if x \<le> 0 then Num 0.35 else if 5 < x then Num 0.60 else Num x)"
  by (cases v) (simp_all add: validate_implied_volatility_META_def pd_isna_def pf_gt_def)

lemma validate_UNH_cases:
  "validate_implied_volatility_UNH v =
     (case v of NaN \<Rightarrow> Num 0.30
      | Num x \<Rightarrow> if x \<le> 0 then Num 0.30 else if 5 < x then Num 0.50 else Num x)"
  by (cases v) (simp_all add: validate_implied_volatility_UNH_def pd_isna_def pf_gt_def)

lemma in_range_Num: "in_range lo hi v \<Longrightarrow> \<exists>s. v = Num s \<and> lo < s \<and> s \<le> hi"
  by (cases v) (simp_all add: in_range_def)

lemma validate_META_in_range: "in_range 0 5 (validate_implied_volatility_META v)"
  by (cases v) (simp_all add: validate_META_cases in_range_def)

lemma validate_UNH_in_range: "in_range 0 5 (validate_implied_volatility_UNH v)"
  by (cases v) (simp_all add: validate_UNH_cases in_range_def)

lemma validate_META_positive:
  "\<exists>s. validate_implied_volatility_META v = Num s \<and> 0 < s \<and> s \<le> 5"
  by (rule in_range_Num [OF validate_META_in_range])

lemma validate_UNH_positive:
  "\<exists>s. validate_implied_volatility_UNH v = Num s \<and> 0 < s \<and> s \<le> 5"
  by (rule in_range_Num [OF validate_UNH_in_range])

lemma validate_META_idem:
  "validate_implied_volatility_META (validate_implied_volatility_META v) =
     validate_implied_volatility_META v"
  by (cases v) (simp_all add: validate_META_cases)

lemma validate_UNH_idem:
  "validate_implied_volatility_UNH (validate_implied_volatility_UNH v) =
     validate_implied_volatility_UNH v"
  by (cases v) (simp_all add: validate_UNH_cases)




section \<open>Price formula\<close>

text \<open>
  C1. With a time to maturity that is not positive the price is the intrinsic value, whatever
  the distribution function, rate, volatility and dividend yield.
\<close>

theorem expired_price_is_intrinsic:
  assumes "T \<le> 0"
  shows "black_scholes_with_dividends_META cdf S K T r sigma q ''call'' = Inr (max (S - K) 0)
       \<and> black_scholes_with_dividends_META cdf S K T r sigma q ''put'' = Inr (max (K - S) 0)"
  using assms by (simp add: black_scholes_with_dividends_META_def)

theorem expired_price_is_intrinsic_witness:
  "(0::real) \<le> 0
   \<and> black_scholes_with_dividends_META gauss_cdf 510 500 0 0.045 (Num 0.30) 0 ''call'' = Inr 10
   \<and> black_scholes_with_dividends_META gauss_cdf 510 500 0 0.045 (Num 0.30) 0 ''put'' = Inr 0"
  using expired_price_is_intrinsic [of 0 gauss_cdf 510 500 "0.045" "Num 0.30" 0] by simp

text \<open>
  C10. For a positive time to maturity and any volatility input, in both scripts: the price is
  the price at the validated volatility; the validated volatility is a number \<open>s\<close>, the
  divisor of \<open>d1\<close>, \<open>s * sqrt T\<close>, is positive, and the price is the formula at \<open>s\<close> unless
  spot and strike alone put the logarithm outside the reals.
\<close>

theorem resanitized_volatility:
  assumes "0 < T"
  shows "black_scholes_with_dividends_META cdf S K T r sigma q kind =
           black_scholes_with_dividends_META cdf S K T r
             (validate_implied_volatility_META sigma) q kind
       \<and> (\<exists>s. validate_implied_volatility_META sigma = Num s \<and> 0 < s * sqrt T
              \<and> black_scholes_with_dividends_META cdf S K T r sigma q kind =
                  (if K = 0 \<or> S / K \<le> 0 then Inl Not_finite
                   else Inr (bs_formula cdf S K T r s q kind)))
       \<and> black_scholes_with_dividends_UNH cdf S K T r sigma q kind =
           black_scholes_with_dividends_UNH cdf S K T r
             (validate_implied_volatility_UNH sigma) q kind
       \<and> (\<exists>s. validate_implied_volatility_UNH sigma = Num s \<and> 0 < s * sqrt T
              \<and> black_scholes_with_dividends_UNH cdf S K T r sigma q kind =
                  (if K = 0 \<or> S / K \<le> 0 then Inl Not_finite
                   else Inr (bs_formula cdf S K T r s q kind)))"
proof -
  obtain s where s: "validate_implied_volatility_META sigma = Num s" "0 < s"
    using validate_META_positive by blast
  obtain u where u: "validate_implied_volatility_UNH sigma = Num u" "0 < u"
    using validate_UNH_positive by blast
  have s': "validate_implied_volatility_META (Num s) = Num s"
    using validate_META_idem [of sigma] s by simp
  have u': "validate_implied_volatility_UNH (Num u) = Num u"
    using validate_UNH_idem [of sigma] u by simp
  have "0 < s * sqrt T" "0 < u * sqrt T" using s u assms by simp_all
  then show ?thesis
    using s s' u u' assms
    by (simp add: black_scholes_with_dividends_META_def black_scholes_with_dividends_UNH_def)
qed

theorem resanitized_volatility_witness:
  "black_scholes_with_dividends_META gauss_cdf 500 500 (1 / 4) 0.045 NaN 0 ''call'' =
     black_scholes_with_dividends_META gauss_cdf 500 500 (1 / 4) 0.045
       (validate_implied_volatility_META NaN) 0 ''call''
   \<and> black_scholes_with_dividends_META gauss_cdf 500 500 (1 / 4) 0.045 (Num 0) 0 ''call''
       = Inr (bs_formula gauss_cdf 500 500 (1 / 4) 0.045 0.35 0 ''call'')
   \<and> black_scholes_with_dividends_UNH gauss_cdf 500 500 (1 / 4) 0.045 (Num (- 1)) 0 ''put''
       = Inr (bs_formula gauss_cdf 500 500 (1 / 4) 0.045 0.30 0 ''put'')"
proof -
  have T: "(0::real) < 1 / 4" by simp
  have k: "\<not> ((500::real) = 0 \<or> (500::real) / 500 \<le> 0)" by simp
  have v: "validate_implied_volatility_META (Num 0) = Num 0.35"
          "validate_implied_volatility_UNH (Num (- 1)) = Num 0.30"
    by (simp_all add: validate_META_cases validate_UNH_cases)
  note a = resanitized_volatility [OF T, of gauss_cdf 500 500 "0.045" NaN 0 "''call''"]
  note b = resanitized_volatility [OF T, of gauss_cdf 500 500 "0.045" "Num 0" 0 "''call''"]
  note c = resanitized_volatility [OF T, of gauss_cdf 500 500 "0.045" "Num (- 1)" 0 "''put''"]
  from a have "black_scholes_with_dividends_META gauss_cdf 500 500 (1 / 4) 0.045 NaN 0 ''call'' =
     black_scholes_with_dividends_META gauss_cdf 500 500 (1 / 4) 0.045
       (validate_implied_volatility_META NaN) 0 ''call''"
    by (rule conjunct1)
  moreover have "black_scholes_with_dividends_META gauss_cdf 500 500 (1 / 4) 0.045 (Num 0) 0 ''call''
       = Inr (bs_formula gauss_cdf 500 500 (1 / 4) 0.045 0.35 0 ''call'')"
  proof -
    from b obtain s where s: "validate_implied_volatility_META (Num 0) = Num s"
      and e: "black_scholes_with_dividends_META gauss_cdf 500 500 (1 / 4) 0.045 (Num 0) 0 ''call'' =
                (if (500::real) = 0 \<or> (500::real) / 500 \<le> 0 then Inl Not_finite
                 else Inr (bs_formula gauss_cdf 500 500 (1 / 4) 0.045 s 0 ''call''))"
      by blast
    from s v(1) have "s = 0.35" by simp
    with e show ?thesis by (simp only: if_not_P [OF k])
  qed
  moreover have "black_scholes_with_dividends_UNH gauss_cdf 500 500 (1 / 4) 0.045 (Num (- 1)) 0 ''put''
       = Inr (bs_formula gauss_cdf 500 500 (1 / 4) 0.045 0.30 0 ''put'')"
  proof -
    from c obtain s where s: "validate_implied_volatility_UNH (Num (- 1)) = Num s"
      and e: "black_scholes_with_dividends_UNH gauss_cdf 500 500 (1 / 4) 0.045 (Num (- 1)) 0 ''put'' =
                (if (500::real) = 0 \<or> (500::real) / 500 \<le> 0 then Inl Not_finite
                 else Inr (bs_formula gauss_cdf 500 500 (1 / 4) 0.045 s 0 ''put''))"
      by blast
    from s v(2) have "s = 0.30" by simp
    with e show ?thesis by (simp only: if_not_P [OF k])
  qed
  ultimately show ?thesis by blast
qed

lemma bs_META_value:
  assumes "0 < S" and "0 < K"
  shows "black_scholes_with_dividends_META cdf S K T r sigma q kind =
           (if T \<le> 0 then (if kind = ''call'' then Inr (max (S - K) 0) else Inr (max (K - S) 0))
            else (case validate_implied_volatility_META sigma of
                    NaN \<Rightarrow> Inl Not_finite
                  | Num sg \<Rightarrow> Inr (bs_formula cdf S K T r sg q kind)))"
proof -
  have "0 < S / K" and "K \<noteq> 0" using assms by simp_all
  then have "\<not> (K = 0 \<or> S / K \<le> 0)" by simp
  then show ?thesis
    by (simp add: black_scholes_with_dividends_META_def split: pyfloat.splits)
qed

lemma bs_formula_parity:
  assumes "symmetric_cdf cdf"
  shows "bs_formula cdf S K T r sg q ''call'' - bs_formula cdf S K T r sg q ''put''
           = S * exp (- q * T) - K * exp (- r * T)"
proof -
  define d1 where "d1 = (ln (S / K) + (r - q + 0.5 * sg\<^sup>2) * T) / (sg * sqrt T)"
  define d2 where "d2 = d1 - sg * sqrt T"
  have c: "bs_formula cdf S K T r sg q ''call''
             = S * exp (- q * T) * cdf d1 - K * exp (- r * T) * cdf d2"
    by (simp add: bs_formula_def Let_def d1_def d2_def)
  have p: "bs_formula cdf S K T r sg q ''put''
             = K * exp (- r * T) * cdf (- d2) - S * exp (- q * T) * cdf (- d1)"
    by (simp add: bs_formula_def Let_def d1_def d2_def)
  have n: "cdf (- d1) = 1 - cdf d1" "cdf (- d2) = 1 - cdf d2"
    using assms by (simp_all add: symmetric_cdf_def)
  show ?thesis unfolding c p n by (simp add: algebra_simps)
qed

text \<open>
  C7. Put-call parity: for a symmetric distribution function, positive spot and strike and a
  time to maturity that is not negative, call and put are both numbers and their difference
  is \<open>S * exp (- q * T) - K * exp (- r * T)\<close>, for every volatility input.
\<close>

theorem put_call_parity:
  assumes "symmetric_cdf cdf" and "0 < S" and "0 < K" and "0 \<le> T"
  shows "\<exists>c p. black_scholes_with_dividends_META cdf S K T r sigma q ''call'' = Inr c
             \<and> black_scholes_with_dividends_META cdf S K T r sigma q ''put'' = Inr p
             \<and> c - p = S * exp (- q * T) - K * exp (- r * T)"
proof (cases "T \<le> 0")
  case True
  with assms have "T = 0" by simp
  then show ?thesis using assms by (simp add: bs_META_value max_def)
next
  case False
  obtain sg where sg: "validate_implied_volatility_META sigma = Num sg"
    using validate_META_positive by blast
  show ?thesis
    using False assms sg bs_formula_parity [OF assms(1), of S K T r sg q]
    by (simp add: bs_META_value)
qed

theorem put_call_parity_witness:
  "\<exists>c p. black_scholes_with_dividends_META gauss_cdf 500 500 (1 / 4) 0.045 (Num 0.30) 0 ''call'' = Inr c
        \<and> black_scholes_with_dividends_META gauss_cdf 500 500 (1 / 4) 0.045 (Num 0.30) 0 ''put'' = Inr p
        \<and> c - p = 500 * exp (- 0 * (1 / 4)) - 500 * exp (- 0.045 * (1 / 4))"
  by (rule put_call_parity [OF gauss_cdf_symmetric]) simp_all

lemma gauss_key:
  fixes S K T r q v d :: real
  assumes "0 < S" and "0 < K"
    and dv: "d * v = ln (S / K) + (r - q) * T + v\<^sup>2 / 2"
  shows "S * exp (- q * T) * exp (- d\<^sup>2 / 2) = K * exp (- r * T) * exp (- (d - v)\<^sup>2 / 2)"
proof -
  have "- (d - v)\<^sup>2 / 2 = - d\<^sup>2 / 2 + (d * v - v\<^sup>2 / 2)"
    by (simp add: power2_eq_square field_simps)
  also have "\<dots> = - d\<^sup>2 / 2 + (ln (S / K) + (r - q) * T)"
    by (simp add: dv)
  finally have "exp (- (d - v)\<^sup>2 / 2) = exp (- d\<^sup>2 / 2) * (exp (ln (S / K)) * exp ((r - q) * T))"
    by (simp only: exp_add)
  also have "exp (ln (S / K)) = S / K"
    using assms by simp
  finally have e: "exp (- (d - v)\<^sup>2 / 2) = exp (- d\<^sup>2 / 2) * (S / K * exp ((r - q) * T))" .
  have "exp (- r * T) * exp ((r - q) * T) = exp (- q * T)"
    by (simp add: exp_add [symmetric] algebra_simps)
  then have "K * exp (- r * T) * (exp (- d\<^sup>2 / 2) * (S / K * exp ((r - q) * T)))
      = S * exp (- q * T) * exp (- d\<^sup>2 / 2)"
    using \<open>0 < K\<close> by (simp add: mult.assoc mult.left_commute)
  then show ?thesis by (simp only: e)
qed

lemma bs_deriv_general:
  fixes A B D cdf :: "real \<Rightarrow> real"
  assumes cdf: "\<And>y. (cdf has_real_derivative c * exp (- y\<^sup>2 / 2)) (at y)"
    and A: "(A has_real_derivative A') (at x)"
    and B: "(B has_real_derivative B') (at x)"
    and D: "(D has_real_derivative D') (at x)"
    and key: "A x * exp (- (D x)\<^sup>2 / 2) = B x * exp (- (D x - v)\<^sup>2 / 2)"
  shows "((\<lambda>x. A x * cdf (D x) - B x * cdf (D x - v)) has_real_derivative
            A' * cdf (D x) - B' * cdf (D x - v)) (at x)"
    and "((\<lambda>x. B x * cdf (- (D x - v)) - A x * cdf (- D x)) has_real_derivative
            B' * cdf (- (D x - v)) - A' * cdf (- D x)) (at x)"
proof -
  have c1: "((\<lambda>x. cdf (D x)) has_real_derivative c * exp (- (D x)\<^sup>2 / 2) * D') (at x)"
    by (rule DERIV_chain2 [OF cdf D])
  have "((\<lambda>x. D x - v) has_real_derivative D' - 0) (at x)"
    by (intro DERIV_diff D DERIV_const)
  then have D2: "((\<lambda>x. D x - v) has_real_derivative D') (at x)" by simp
  have c2: "((\<lambda>x. cdf (D x - v)) has_real_derivative c * exp (- (D x - v)\<^sup>2 / 2) * D') (at x)"
    by (rule DERIV_chain2 [OF cdf D2])
  have D3: "((\<lambda>x. - D x) has_real_derivative - D') (at x)"
    by (rule DERIV_minus [OF D])
  have D4: "((\<lambda>x. - (D x - v)) has_real_derivative - D') (at x)"
    by (rule DERIV_minus [OF D2])
  have c3: "((\<lambda>x. cdf (- D x)) has_real_derivative c * exp (- (- D x)\<^sup>2 / 2) * (- D')) (at x)"
    by (rule DERIV_chain2 [OF cdf D3])
  have c4: "((\<lambda>x. cdf (- (D x - v))) has_real_derivative
              c * exp (- (- (D x - v))\<^sup>2 / 2) * (- D')) (at x)"
    by (rule DERIV_chain2 [OF cdf D4])
  have k: "c * D' * (A x * exp (- (D x)\<^sup>2 / 2)) = c * D' * (B x * exp (- (D x - v)\<^sup>2 / 2))"
    by (simp only: key)
  have d1: "((\<lambda>x. A x * cdf (D x) - B x * cdf (D x - v)) has_real_derivative
          (A x * (c * exp (- (D x)\<^sup>2 / 2) * D') + A' * cdf (D x))
          - (B x * (c * exp (- (D x - v)\<^sup>2 / 2) * D') + B' * cdf (D x - v))) (at x)"
    by (intro DERIV_diff DERIV_mult' A B c1 c2)
  have e1: "(A x * (c * exp (- (D x)\<^sup>2 / 2) * D') + A' * cdf (D x))
          - (B x * (c * exp (- (D x - v)\<^sup>2 / 2) * D') + B' * cdf (D x - v))
        = A' * cdf (D x) - B' * cdf (D x - v)"
    using k by (simp add: algebra_simps)
  show "((\<lambda>x. A x * cdf (D x) - B x * cdf (D x - v)) has_real_derivative
            A' * cdf (D x) - B' * cdf (D x - v)) (at x)"
    by (rule DERIV_cong [OF d1 e1])
  have d2: "((\<lambda>x. B x * cdf (- (D x - v)) - A x * cdf (- D x)) has_real_derivative
          (B x * (c * exp (- (- (D x - v))\<^sup>2 / 2) * (- D')) + B' * cdf (- (D x - v)))
          - (A x * (c * exp (- (- D x)\<^sup>2 / 2) * (- D')) + A' * cdf (- D x))) (at x)"
    by (intro DERIV_diff DERIV_mult' A B c3 c4)
  have e2: "(B x * (c * exp (- (- (D x - v))\<^sup>2 / 2) * (- D')) + B' * cdf (- (D x - v)))
          - (A x * (c * exp (- (- D x)\<^sup>2 / 2) * (- D')) + A' * cdf (- D x))
        = B' * cdf (- (D x - v)) - A' * cdf (- D x)"
    unfolding power2_minus using k by (simp add: algebra_simps)
  show "((\<lambda>x. B x * cdf (- (D x - v)) - A x * cdf (- D x)) has_real_derivative
            B' * cdf (- (D x - v)) - A' * cdf (- D x)) (at x)"
    by (rule DERIV_cong [OF d2 e2])
qed

lemma d1_times_vol:
  fixes S K T r q sg :: real
  assumes "0 < T" and "0 < sg"
  shows "(ln (S / K) + (r - q + 0.5 * sg\<^sup>2) * T) / (sg * sqrt T) * (sg * sqrt T)
           = ln (S / K) + (r - q) * T + (sg * sqrt T)\<^sup>2 / 2"
proof -
  have "sg * sqrt T \<noteq> 0" using assms by simp
  then have e1: "(ln (S / K) + (r - q + 0.5 * sg\<^sup>2) * T) / (sg * sqrt T) * (sg * sqrt T)
           = ln (S / K) + (r - q + 0.5 * sg\<^sup>2) * T"
    by simp
  have "(sqrt T)\<^sup>2 = T" using assms by simp
  then have e2: "(sg * sqrt T)\<^sup>2 = sg\<^sup>2 * T"
    by (simp only: power_mult_distrib)
  show ?thesis unfolding e1 e2 by (simp add: algebra_simps)
qed

lemma d1_deriv_spot:
  fixes S K m v :: real
  assumes "0 < S" and "0 < K"
  shows "((\<lambda>S. (ln (S / K) + m) / v) has_real_derivative (1 / S) / v) (at S)"
proof (rule DERIV_cdivide)
  show "((\<lambda>S. ln (S / K) + m) has_real_derivative 1 / S) (at S)"
    using assms by (auto intro!: derivative_eq_intros simp: field_simps)
qed

lemma d1_deriv_strike:
  fixes S K m v :: real
  assumes "0 < S" and "0 < K"
  shows "((\<lambda>K. (ln (S / K) + m) / v) has_real_derivative (- 1 / K) / v) (at K)"
proof (rule DERIV_cdivide)
  show "((\<lambda>K. ln (S / K) + m) has_real_derivative - 1 / K) (at K)"
    using assms by (auto intro!: derivative_eq_intros simp: field_simps)
qed

lemma bs_formula_deriv_spot:
  fixes S K T r q sg :: real
  assumes cdf: "\<And>y. (cdf has_real_derivative c * exp (- y\<^sup>2 / 2)) (at y)"
    and pos: "0 < S" "0 < K" "0 < T" "0 < sg"
  shows "((\<lambda>S. bs_formula cdf S K T r sg q ''call'') has_real_derivative
            exp (- q * T) * cdf ((ln (S / K) + (r - q + 0.5 * sg\<^sup>2) * T) / (sg * sqrt T))) (at S)"
    and "((\<lambda>S. bs_formula cdf S K T r sg q ''put'') has_real_derivative
            - (exp (- q * T) * cdf (- ((ln (S / K) + (r - q + 0.5 * sg\<^sup>2) * T) / (sg * sqrt T)))))
          (at S)"
proof -
  let ?D = "\<lambda>S. (ln (S / K) + (r - q + 0.5 * sg\<^sup>2) * T) / (sg * sqrt T)"
  let ?A = "\<lambda>S. S * exp (- q * T)"
  let ?B = "\<lambda>S::real. K * exp (- r * T)"
  let ?v = "sg * sqrt T"
  have A: "(?A has_real_derivative exp (- q * T)) (at S)"
    by (auto intro!: derivative_eq_intros)
  have B: "(?B has_real_derivative 0) (at S)"
    by (rule DERIV_const)
  have D: "(?D has_real_derivative (1 / S) / ?v) (at S)"
    using pos by (intro d1_deriv_spot)
  have key: "?A S * exp (- (?D S)\<^sup>2 / 2) = ?B S * exp (- (?D S - ?v)\<^sup>2 / 2)"
    using pos by (intro gauss_key d1_times_vol)
  have "((\<lambda>S. ?A S * cdf (?D S) - ?B S * cdf (?D S - ?v)) has_real_derivative
            exp (- q * T) * cdf (?D S) - 0 * cdf (?D S - ?v)) (at S)"
    by (rule bs_deriv_general(1) [OF cdf A B D key])
  then show "((\<lambda>S. bs_formula cdf S K T r sg q ''call'') has_real_derivative
            exp (- q * T) * cdf (?D S)) (at S)"
    by (simp add: bs_formula_def Let_def)
  have "((\<lambda>S. ?B S * cdf (- (?D S - ?v)) - ?A S * cdf (- ?D S)) has_real_derivative
            0 * cdf (- (?D S - ?v)) - exp (- q * T) * cdf (- ?D S)) (at S)"
    by (rule bs_deriv_general(2) [OF cdf A B D key])
  then show "((\<lambda>S. bs_formula cdf S K T r sg q ''put'') has_real_derivative
            - (exp (- q * T) * cdf (- ?D S))) (at S)"
    by (simp add: bs_formula_def Let_def)
qed

lemma bs_formula_deriv_strike:
  fixes S K T r q sg :: real
  assumes cdf: "\<And>y. (cdf has_real_derivative c * exp (- y\<^sup>2 / 2)) (at y)"
    and pos: "0 < S" "0 < K" "0 < T" "0 < sg"
  shows "((\<lambda>K. bs_formula cdf S K T r sg q ''call'') has_real_derivative
            - (exp (- r * T) *
               cdf ((ln (S / K) + (r - q + 0.5 * sg\<^sup>2) * T) / (sg * sqrt T) - sg * sqrt T)))
          (at K)"
    and "((\<lambda>K. bs_formula cdf S K T r sg q ''put'') has_real_derivative
            exp (- r * T) *
            cdf (- ((ln (S / K) + (r - q + 0.5 * sg\<^sup>2) * T) / (sg * sqrt T) - sg * sqrt T)))
          (at K)"
proof -
  let ?D = "\<lambda>K. (ln (S / K) + (r - q + 0.5 * sg\<^sup>2) * T) / (sg * sqrt T)"
  let ?A = "\<lambda>K::real. S * exp (- q * T)"
  let ?B = "\<lambda>K. K * exp (- r * T)"
  let ?v = "sg * sqrt T"
  have A: "(?A has_real_derivative 0) (at K)"
    by (rule DERIV_const)
  have B: "(?B has_real_derivative exp (- r * T)) (at K)"
    by (auto intro!: derivative_eq_intros)
  have D: "(?D has_real_derivative (- 1 / K) / ?v) (at K)"
    using pos by (intro d1_deriv_strike)
  have key: "?A K * exp (- (?D K)\<^sup>2 / 2) = ?B K * exp (- (?D K - ?v)\<^sup>2 / 2)"
    using pos by (intro gauss_key d1_times_vol)
  have "((\<lambda>K. ?A K * cdf (?D K) - ?B K * cdf (?D K - ?v)) has_real_derivative
            0 * cdf (?D K) - exp (- r * T) * cdf (?D K - ?v)) (at K)"
    by (rule bs_deriv_general(1) [OF cdf A B D key])
  then show "((\<lambda>K. bs_formula cdf S K T r sg q ''call'') has_real_derivative
            - (exp (- r * T) * cdf (?D K - ?v))) (at K)"
    by (simp add: bs_formula_def Let_def)
  have "((\<lambda>K. ?B K * cdf (- (?D K - ?v)) - ?A K * cdf (- ?D K)) has_real_derivative
            exp (- r * T) * cdf (- (?D K - ?v)) - 0 * cdf (- ?D K)) (at K)"
    by (rule bs_deriv_general(2) [OF cdf A B D key])
  then show "((\<lambda>K. bs_formula cdf S K T r sg q ''put'') has_real_derivative
            exp (- r * T) * cdf (- (?D K - ?v))) (at K)"
    by (simp add: bs_formula_def Let_def)
qed

lemma bs_formula_mono_spot:
  fixes S1 S2 K T r q sg :: real
  assumes g: "gaussian_cdf cdf" and pos: "0 < K" "0 < T" "0 < sg" and S: "0 < S1" "S1 \<le> S2"
  shows "bs_formula cdf S1 K T r sg q ''call'' \<le> bs_formula cdf S2 K T r sg q ''call''"
    and "bs_formula cdf S2 K T r sg q ''put'' \<le> bs_formula cdf S1 K T r sg q ''put''"
proof -
  from g obtain c where c: "\<And>y. (cdf has_real_derivative c * exp (- y\<^sup>2 / 2)) (at y)"
    and nn: "\<And>y. 0 \<le> cdf y"
    unfolding gaussian_cdf_def by blast
  show "bs_formula cdf S1 K T r sg q ''call'' \<le> bs_formula cdf S2 K T r sg q ''call''"
  proof (rule DERIV_nonneg_imp_nondecreasing [OF S(2)])
    fix x assume "S1 \<le> x" "x \<le> S2"
    then have x: "0 < x" using S by simp
    show "\<exists>y. ((\<lambda>S. bs_formula cdf S K T r sg q ''call'') has_real_derivative y) (at x) \<and> 0 \<le> y"
      using bs_formula_deriv_spot(1) [OF c x pos, of r q] nn
      by (blast intro: mult_nonneg_nonneg exp_ge_zero)
  qed
  show "bs_formula cdf S2 K T r sg q ''put'' \<le> bs_formula cdf S1 K T r sg q ''put''"
  proof (rule DERIV_nonpos_imp_nonincreasing [OF S(2)])
    fix x assume "S1 \<le> x" "x \<le> S2"
    then have x: "0 < x" using S by simp
    have "- (exp (- q * T) * cdf (- ((ln (x / K) + (r - q + 0.5 * sg\<^sup>2) * T) / (sg * sqrt T)))) \<le> 0"
      using nn by simp
    then show "\<exists>y. ((\<lambda>S. bs_formula cdf S K T r sg q ''put'') has_real_derivative y) (at x) \<and> y \<le> 0"
      using bs_formula_deriv_spot(2) [OF c x pos, of r q] by blast
  qed
qed

lemma bs_formula_mono_strike:
  fixes S K1 K2 T r q sg :: real
  assumes g: "gaussian_cdf cdf" and pos: "0 < S" "0 < T" "0 < sg" and K: "0 < K1" "K1 \<le> K2"
  shows "bs_formula cdf S K2 T r sg q ''call'' \<le> bs_formula cdf S K1 T r sg q ''call''"
    and "bs_formula cdf S K1 T r sg q ''put'' \<le> bs_formula cdf S K2 T r sg q ''put''"
proof -
  from g obtain c where c: "\<And>y. (cdf has_real_derivative c * exp (- y\<^sup>2 / 2)) (at y)"
    and nn: "\<And>y. 0 \<le> cdf y"
    unfolding gaussian_cdf_def by blast
  show "bs_formula cdf S K2 T r sg q ''call'' \<le> bs_formula cdf S K1 T r sg q ''call''"
  proof (rule DERIV_nonpos_imp_nonincreasing [OF K(2)])
    fix x assume "K1 \<le> x" "x \<le> K2"
    then have x: "0 < x" using K by simp
    have "- (exp (- r * T) *
             cdf ((ln (S / x) + (r - q + 0.5 * sg\<^sup>2) * T) / (sg * sqrt T) - sg * sqrt T)) \<le> 0"
      using nn by simp
    then show "\<exists>y. ((\<lambda>K. bs_formula cdf S K T r sg q ''call'') has_real_derivative y) (at x) \<and> y \<le> 0"
      using bs_formula_deriv_strike(1) [OF c pos(1) x pos(2,3), of r q] by blast
  qed
  show "bs_formula cdf S K1 T r sg q ''put'' \<le> bs_formula cdf S K2 T r sg q ''put''"
  proof (rule DERIV_nonneg_imp_nondecreasing [OF K(2)])
    fix x assume "K1 \<le> x" "x \<le> K2"
    then have x: "0 < x" using K by simp
    have "0 \<le> exp (- r * T) *
             cdf (- ((ln (S / x) + (r - q + 0.5 * sg\<^sup>2) * T) / (sg * sqrt T) - sg * sqrt T))"
      using nn by simp
    then show "\<exists>y. ((\<lambda>K. bs_formula cdf S K T r sg q ''put'') has_real_derivative y) (at x) \<and> 0 \<le> y"
      using bs_formula_deriv_strike(2) [OF c pos(1) x pos(2,3), of r q] by blast
  qed
qed

text \<open>
  C8. Monotonicity: for a distribution function with Gaussian density and no negative value,
  and positive spots and strikes, the call price does not decrease and the put price does not
  increase when the spot grows; the call price does not increase and the put price does not
  decrease when the strike grows. Time, rate, volatility input and dividend yield are arbitrary.
\<close>

theorem price_monotone:
  assumes "gaussian_cdf cdf"
    and "0 < S1" and "S1 \<le> S2" and "0 < K"
    and "0 < S" and "0 < K1" and "K1 \<le> K2"
  shows "price_le (black_scholes_with_dividends_META cdf S1 K T r sigma q ''call'')
                  (black_scholes_with_dividends_META cdf S2 K T r sigma q ''call'')
       \<and> price_le (black_scholes_with_dividends_META cdf S2 K T r sigma q ''put'')
                  (black_scholes_with_dividends_META cdf S1 K T r sigma q ''put'')
       \<and> price_le (black_scholes_with_dividends_META cdf S K2 T r sigma q ''call'')
                  (black_scholes_with_dividends_META cdf S K1 T r sigma q ''call'')
       \<and> price_le (black_scholes_with_dividends_META cdf S K1 T r sigma q ''put'')
                  (black_scholes_with_dividends_META cdf S K2 T r sigma q ''put'')"
proof (cases "T \<le> 0")
  case True
  then show ?thesis using assms by (auto simp: bs_META_value price_le_def max_def)
next
  case False
  then have T: "0 < T" by simp
  obtain sg where sg: "validate_implied_volatility_META sigma = Num sg" "0 < sg"
    using validate_META_positive by blast
  have S2: "0 < S2" and K2: "0 < K2" using assms by simp_all
  show ?thesis
    using False assms S2 K2 sg
      bs_formula_mono_spot [OF assms(1) \<open>0 < K\<close> T sg(2) \<open>0 < S1\<close> \<open>S1 \<le> S2\<close>, of r q]
      bs_formula_mono_strike [OF assms(1) \<open>0 < S\<close> T sg(2) \<open>0 < K1\<close> \<open>K1 \<le> K2\<close>, of r q]
    by (simp add: bs_META_value price_le_def)
qed

theorem price_monotone_witness:
  "price_le (black_scholes_with_dividends_META gauss_cdf 490 500 (1 / 4) 0.045 (Num 0.30) 0 ''call'')
            (black_scholes_with_dividends_META gauss_cdf 510 500 (1 / 4) 0.045 (Num 0.30) 0 ''call'')
   \<and> price_le (black_scholes_with_dividends_META gauss_cdf 510 500 (1 / 4) 0.045 (Num 0.30) 0 ''put'')
            (black_scholes_with_dividends_META gauss_cdf 490 500 (1 / 4) 0.045 (Num 0.30) 0 ''put'')
   \<and> price_le (black_scholes_with_dividends_META gauss_cdf 500 510 (1 / 4) 0.045 (Num 0.30) 0 ''call'')
            (black_scholes_with_dividends_META gauss_cdf 500 490 (1 / 4) 0.045 (Num 0.30) 0 ''call'')
   \<and> price_le (black_scholes_with_dividends_META gauss_cdf 500 490 (1 / 4) 0.045 (Num 0.30) 0 ''put'')
            (black_scholes_with_dividends_META gauss_cdf 500 510 (1 / 4) 0.045 (Num 0.30) 0 ''put'')"
  by (rule price_monotone [OF gauss_cdf_gaussian]) simp_all


section \<open>Effective price\<close>











text \<open>
  C9. When the first priority does not apply and bid and ask are numbers, both positive, the
  ask not below the bid, the effective price is their midpoint.
\<close>

theorem midpoint_of_bid_ask:
  assumes "priority1 row = None"
    and "bid row = Some (Num b)" and "ask row = Some (Num a)"
    and "0 < b" and "0 < a" and "b \<le> a"
  shows "calculate_effective_price row = Num ((b + a) / 2)"
  using assms
  by (simp add: calculate_effective_price_def priority2_def pd_isna_def pf_gt_def pf_ge_def Let_def)

theorem midpoint_of_bid_ask_witness:
  "priority1 scenario3 = None \<and> calculate_effective_price scenario3 = Num 2.10
   \<and> priority1 (scenario3\<lparr>lastPrice := Some NaN\<rparr>) = None
   \<and> calculate_effective_price (scenario3\<lparr>lastPrice := Some NaN\<rparr>) = Num 2.10"
proof -
  have h: "priority1 scenario3 = None" "priority1 (scenario3\<lparr>lastPrice := Some NaN\<rparr>) = None"
    by (simp_all add: scenario3_def priority1_def pd_isna_def)
  have "calculate_effective_price scenario3 = Num ((2.00 + 2.20) / 2)"
    by (rule midpoint_of_bid_ask [OF h(1)]) (simp_all add: scenario3_def)
  moreover have "calculate_effective_price (scenario3\<lparr>lastPrice := Some NaN\<rparr>) = Num ((2.00 + 2.20) / 2)"
    by (rule midpoint_of_bid_ask [OF h(2)]) (simp_all add: scenario3_def)
  ultimately show ?thesis using h by simp
qed


section \<open>Percent difference\<close>

lemma price_differences_percent:
  "snd (price_differences theoretical effective) = expected_percent theoretical effective"
  by (cases theoretical; cases effective)
     (simp_all add: price_differences_def expected_percent_def Let_def pf_gt_def)

lemma evaluate_row_META_percent:
  assumes "evaluate_row_META cdf S q r kind row = Some rep"
  shows "rep_percent_diff rep = expected_percent (rep_bs_price rep) (rep_price rep)"
  using assms
  by (auto simp: evaluate_row_META_def Let_def price_differences_percent [symmetric]
           split: if_splits option.splits prod.splits)

lemma evaluate_row_UNH_percent:
  assumes "evaluate_row_UNH cdf S q r kind row = Some rep"
  shows "rep_percent_diff rep = expected_percent (rep_bs_price rep) (rep_price rep)"
  using assms
  by (auto simp: evaluate_row_UNH_def Let_def price_differences_percent [symmetric]
           split: if_splits option.splits prod.splits)

text \<open>
  The META script filters on a positive effective price before its loops, so a row it reports
  has a positive market price. The UNH script has no such filter.
\<close>

lemma evaluate_group_META_positive:
  assumes "rep \<in> set (evaluate_group_META cdf S q r kind rows)"
  shows "pf_gt (rep_price rep) (Num 0)"
proof -
  from assms obtain row where row: "row \<in> set (valid_rows rows)"
      and rep: "evaluate_row_META cdf S q r kind row = Some rep"
    by (auto simp: evaluate_group_META_def List.map_filter_def)
  from row obtain e where "effective_price row = Some e" "pf_gt e (Num 0)"
    by (auto simp: valid_rows_def split: option.splits)
  with rep show ?thesis
    by (auto simp: evaluate_row_META_def Let_def split: if_splits option.splits prod.splits)
qed

text \<open>
  C4, as the code has it. In both scripts, for a row that the loop body reports, the percent
  difference is the number 0 when the market price is zero, negative or not a number, and
  \<open>(theoretical - effective) / effective * 100\<close> when the market price is positive.
\<close>

theorem percent_difference_reported:
  "(evaluate_row_META cdf S q r kind row = Some rep \<longrightarrow>
      rep_percent_diff rep = expected_percent (rep_bs_price rep) (rep_price rep))
   \<and> (evaluate_row_UNH cdf S q r kind row = Some rep' \<longrightarrow>
      rep_percent_diff rep' = expected_percent (rep_bs_price rep') (rep_price rep'))"
  by (simp add: evaluate_row_META_percent evaluate_row_UNH_percent)

theorem percent_difference_reported_witness:
  "(\<exists>rep. evaluate_row_META gauss_cdf 510 0 0.045 ''call'' traded_row = Some rep
      \<and> rep_price rep = Num 12.50
      \<and> rep_percent_diff rep = expected_percent (rep_bs_price rep) (rep_price rep))
   \<and> (\<exists>rep'. evaluate_row_UNH gauss_cdf 310 0 0.045 ''call'' untraded_row = Some rep'
      \<and> rep_price rep' = Num 0
      \<and> rep_percent_diff rep' = expected_percent (rep_bs_price rep') (rep_price rep'))"
proof -
  obtain rep where rep: "evaluate_row_META gauss_cdf 510 0 0.045 ''call'' traded_row = Some rep"
      and p: "rep_price rep = Num 12.50"
    by (simp add: evaluate_row_META_def traded_row_def Let_def case_prod_beta)
  obtain rep' where rep': "evaluate_row_UNH gauss_cdf 310 0 0.045 ''call'' untraded_row = Some rep'"
      and p': "rep_price rep' = Num 0"
    by (simp add: evaluate_row_UNH_def untraded_row_def last_price_UNH_def pf_gt_def Let_def
          case_prod_beta)
  have "rep_percent_diff rep = expected_percent (rep_bs_price rep) (rep_price rep)"
    using percent_difference_reported
            [where cdf = gauss_cdf and S = 510 and q = 0 and r = "0.045" and kind = "''call''"
               and row = traded_row and rep = rep] rep
    by blast
  moreover have "rep_percent_diff rep' = expected_percent (rep_bs_price rep') (rep_price rep')"
    using percent_difference_reported
            [where cdf = gauss_cdf and S = 310 and q = 0 and r = "0.045" and kind = "''call''"
               and row = untraded_row and rep' = rep'] rep'
    by blast
  ultimately show ?thesis using rep rep' p p' by blast
qed

text \<open>
  The claim C4 has the percent difference undefined, and not 0, at a market price of 0. The
  loop of the UNH script reports the untraded call, whose market price is 0, with the percent
  difference 0; the value does not depend on the distribution function.
\<close>

theorem zero_price_reports_zero_percent:
  "map_option rep_price (evaluate_row_UNH gauss_cdf 310 0 0.045 ''call'' untraded_row)
     = Some (Num 0)
   \<and> map_option rep_percent_diff (evaluate_row_UNH gauss_cdf 310 0 0.045 ''call'' untraded_row)
     = Some (Num 0)"
  by (simp add: evaluate_row_UNH_def untraded_row_def last_price_UNH_def pf_gt_def Let_def
        price_differences_def split: prod.splits)

end
